theory Spec2Isabelle
  imports Main "HOL-Library.AList"
begin

section \<open>Strings and the posix \<open>path\<close> module of Node.js\<close>

text \<open>
  JavaScript strings are modelled as \<open>string\<close> (lists of 8-bit characters), so a
  document is a text of 8-bit code units.  The functions of this section follow the posix
  implementation of Node's \<open>path\<close> module (\<open>path.join\<close>, \<open>path.resolve\<close>,
  \<open>path.relative\<close>, \<open>path.basename\<close>, \<open>path.dirname\<close>, \<open>path.extname\<close>,
  \<open>path.parse\<close>), which the exporter calls but does not define.
\<close>

type_synonym path = string

definition startsWith :: "string \<Rightarrow> string \<Rightarrow> bool" where
  "startsWith s p = (take (length p) s = p)"

definition endsWith :: "string \<Rightarrow> string \<Rightarrow> bool" where
  "endsWith s p = (length p \<le> length s \<and> drop (length s - length p) s = p)"

definition isAlnum :: "char \<Rightarrow> bool" where
  "isAlnum c =
     (let n = (of_char c :: nat)
      in (48 \<le> n \<and> n \<le> 57) \<or> (65 \<le> n \<and> n \<le> 90) \<or> (97 \<le> n \<and> n \<le> 122))"

fun splitOn :: "char \<Rightarrow> string \<Rightarrow> string list" where
  "splitOn d [] = [[]]"
| "splitOn d (c # cs) =
     (if c = d then [] # splitOn d cs
      else (case splitOn d cs of [] \<Rightarrow> [[c]] | w # ws \<Rightarrow> (c # w) # ws))"

definition segments :: "path \<Rightarrow> string list" where
  "segments p = filter (\<lambda>s. s \<noteq> []) (splitOn CHR ''/'' p)"

fun joinSegs :: "string list \<Rightarrow> string" where
  "joinSegs [] = []"
| "joinSegs [s] = s"
| "joinSegs (s # t # ss) = s @ ''/'' @ joinSegs (t # ss)"

text \<open>\<open>normalizeString\<close> of Node: the accumulator holds the kept segments, last first.\<close>

fun normalizeSegs :: "bool \<Rightarrow> string list \<Rightarrow> string list \<Rightarrow> string list" where
  "normalizeSegs up acc [] = rev acc"
| "normalizeSegs up acc (s # ss) =
     (if s = ''.'' then normalizeSegs up acc ss
      else if s = ''..'' then
        (case acc of
           [] \<Rightarrow> normalizeSegs up (if up then [s] else []) ss
         | a # as \<Rightarrow>
             if a = ''..'' then normalizeSegs up (s # acc) ss
             else normalizeSegs up as ss)
      else normalizeSegs up (s # acc) ss)"

definition isAbsolute :: "path \<Rightarrow> bool" where
  "isAbsolute p = startsWith p ''/''"

definition normalizePath :: "path \<Rightarrow> path" where
  "normalizePath p =
     (if p = [] then ''.''
      else
        let ab = isAbsolute p;
            tr = endsWith p ''/'';
            body = joinSegs (normalizeSegs (\<not> ab) [] (segments p))
        in if body = [] then (if ab then ''/'' else if tr then ''./'' else ''.'')
           else (if ab then ''/'' else []) @ body @ (if tr then ''/'' else []))"

text \<open>\<open>path.join(a, b)\<close>: empty arguments are left out, the rest is normalised.\<close>

definition join2 :: "path \<Rightarrow> path \<Rightarrow> path" where
  "join2 a b =
     (if a = [] \<and> b = [] then ''.''
      else if a = [] then normalizePath b
      else if b = [] then normalizePath a
      else normalizePath (a @ ''/'' @ b))"

text \<open>
  \<open>path.resolve(...args)\<close>: the arguments are taken from the right until the path is
  absolute; the working directory comes last.  \<open>resolveAcc\<close> gets them rightmost first.
\<close>

fun resolveAcc :: "path list \<Rightarrow> path \<Rightarrow> path" where
  "resolveAcc [] acc = acc"
| "resolveAcc (p # ps) acc =
     (if p = [] then resolveAcc ps acc
      else if isAbsolute p then p @ ''/'' @ acc
      else resolveAcc ps (p @ ''/'' @ acc))"

definition resolve :: "path \<Rightarrow> path list \<Rightarrow> path" where
  "resolve cwd args =
     (let r = resolveAcc (rev args @ [cwd]) []
      in if isAbsolute r then ''/'' @ joinSegs (normalizeSegs False [] (segments r))
         else (let b = joinSegs (normalizeSegs True [] (segments r))
               in if b = [] then ''.'' else b))"

fun stripCommon :: "string list \<Rightarrow> string list \<Rightarrow> string list \<times> string list" where
  "stripCommon (a # as) (b # bs) = (if a = b then stripCommon as bs else (a # as, b # bs))"
| "stripCommon as bs = (as, bs)"

definition relative :: "path \<Rightarrow> path \<Rightarrow> path \<Rightarrow> path" where
  "relative cwd src dst =
     (if src = dst then []
      else
        let f = resolve cwd [src]; t = resolve cwd [dst]
        in if f = t then []
           else (case stripCommon (segments f) (segments t) of
                   (fr, tr) \<Rightarrow> joinSegs (replicate (length fr) ''..'' @ tr)))"

definition basename :: "path \<Rightarrow> string" where
  "basename p = (case rev (segments p) of [] \<Rightarrow> [] | s # _ \<Rightarrow> s)"

definition dirname :: "path \<Rightarrow> path" where
  "dirname p =
     (case p of
        [] \<Rightarrow> ''.''
      | c # cs \<Rightarrow>
          let r = dropWhile (\<lambda>x. x \<noteq> CHR ''/'') (dropWhile (\<lambda>x. x = CHR ''/'') (rev cs))
          in if r = [] then (if c = CHR ''/'' then ''/'' else ''.'')
             else if c = CHR ''/'' \<and> length r = 1 then ''//''
             else c # rev (tl r))"

text \<open>
  The name and the extension of a path's last component, as \<open>path.parse\<close> and
  \<open>path.extname\<close> split it: at the last dot, unless the component has no dot, starts
  with its only dot, or is \<open>..\<close>.
\<close>

definition stemExt :: "string \<Rightarrow> string \<times> string" where
  "stemExt b =
     (let r = rev b;
          e = takeWhile (\<lambda>x. x \<noteq> CHR ''.'') r;
          rest = dropWhile (\<lambda>x. x \<noteq> CHR ''.'') r
      in if b = ''..'' \<or> rest = [] \<or> tl rest = [] then (b, [])
         else (rev (tl rest), CHR ''.'' # rev e))"

definition extname :: "path \<Rightarrow> string" where
  "extname p = snd (stemExt (basename p))"

definition parseName :: "path \<Rightarrow> string" where
  "parseName p = fst (stemExt (basename p))"

definition parseExt :: "path \<Rightarrow> string" where
  "parseExt p = snd (stemExt (basename p))"


section \<open>The file system\<close>

text \<open>
  The store is a finite list of entries, each an absolute normalised path with its node,
  in the order in which \<open>fs.readdir\<close> lists them.  A file carries its bytes and whether
  the process may read it; an unreadable file is the one source of permission failures
  (\<open>EACCES\<close>) of the model.  The primitives of \<open>fs/promises\<close> that the exporter awaits
  become functions that return the error thrown (\<open>Inl\<close>) or the value (\<open>Inr\<close>).
\<close>

datatype node = File bool string | Dir

type_synonym filesys = "(path \<times> node) list"

datatype errcode = ENOENT | EACCES | EISDIR | ENOTDIR | EEXIST

datatype jserror = FsError errcode path | URIError | SyntaxError

text \<open>
  What a call produces: a value, a thrown exception, or the end of the process by
  \<open>process.exit(code)\<close>.
\<close>

datatype 'a result = Ok 'a | Throw jserror | Exit nat

definition isENOENT :: "jserror \<Rightarrow> bool" where
  "isENOENT e = (case e of FsError c p \<Rightarrow> c = ENOENT | _ \<Rightarrow> False)"

text \<open>The size \<open>fs.stat\<close> reports for a directory (a platform value).\<close>

definition dirSize :: nat where
  "dirSize = 4096"

definition fs_access :: "filesys \<Rightarrow> path \<Rightarrow> jserror + unit" where
  "fs_access fs p = (case map_of fs p of None \<Rightarrow> Inl (FsError ENOENT p) | Some n \<Rightarrow> Inr ())"

definition fs_accessR :: "filesys \<Rightarrow> path \<Rightarrow> jserror + unit" where
  "fs_accessR fs p =
     (case map_of fs p of
        None \<Rightarrow> Inl (FsError ENOENT p)
      | Some Dir \<Rightarrow> Inr ()
      | Some (File r c) \<Rightarrow> if r then Inr () else Inl (FsError EACCES p))"

definition fs_readFile :: "filesys \<Rightarrow> path \<Rightarrow> jserror + string" where
  "fs_readFile fs p =
     (case map_of fs p of
        None \<Rightarrow> Inl (FsError ENOENT p)
      | Some Dir \<Rightarrow> Inl (FsError EISDIR p)
      | Some (File r c) \<Rightarrow> if r then Inr c else Inl (FsError EACCES p))"

definition fs_statSize :: "filesys \<Rightarrow> path \<Rightarrow> jserror + nat" where
  "fs_statSize fs p =
     (case map_of fs p of
        None \<Rightarrow> Inl (FsError ENOENT p)
      | Some Dir \<Rightarrow> Inr dirSize
      | Some (File r c) \<Rightarrow> Inr (length c))"

fun prefixesOf :: "'a list \<Rightarrow> 'a list list" where
  "prefixesOf [] = []"
| "prefixesOf (x # xs) = [x] # map ((#) x) (prefixesOf xs)"

definition ancestorsOf :: "path \<Rightarrow> path list" where
  "ancestorsOf p =
     map (\<lambda>ss. (if isAbsolute p then ''/'' else []) @ joinSegs ss) (prefixesOf (segments p))"

fun mkdirs :: "filesys \<Rightarrow> path list \<Rightarrow> jserror + filesys" where
  "mkdirs fs [] = Inr fs"
| "mkdirs fs (a # as) =
     (case map_of fs a of
        None \<Rightarrow> mkdirs (fs @ [(a, Dir)]) as
      | Some Dir \<Rightarrow> mkdirs fs as
      | Some (File r c) \<Rightarrow> Inl (FsError (if as = [] then EEXIST else ENOTDIR) a))"

text \<open>\<open>fs.mkdir(dir, {recursive: true})\<close>.\<close>

definition fs_mkdirp :: "filesys \<Rightarrow> path \<Rightarrow> jserror + filesys" where
  "fs_mkdirp fs dir = mkdirs fs (ancestorsOf dir)"

text \<open>\<open>fs.mkdir(dir)\<close>: the parent must be a directory (the root always is).\<close>

definition fs_mkdir :: "filesys \<Rightarrow> path \<Rightarrow> jserror + filesys" where
  "fs_mkdir fs dir =
     (if map_of fs dir \<noteq> None then Inl (FsError EEXIST dir)
      else if dirname dir = ''/'' \<or> map_of fs (dirname dir) = Some Dir then Inr (fs @ [(dir, Dir)])
      else if map_of fs (dirname dir) = None then Inl (FsError ENOENT dir)
      else Inl (FsError ENOTDIR dir))"

text \<open>
  \<open>fs.copyFile(src, dst)\<close> overwrites an existing file.  Every call of the exporter comes
  right after the recursive \<open>mkdir\<close> of the destination's directory, so the directory of
  \<open>dst\<close> is not checked again.
\<close>

definition fs_copyFile :: "filesys \<Rightarrow> path \<Rightarrow> path \<Rightarrow> jserror + filesys" where
  "fs_copyFile fs src dst =
     (case map_of fs src of
        None \<Rightarrow> Inl (FsError ENOENT src)
      | Some Dir \<Rightarrow> Inl (FsError EISDIR src)
      | Some (File r c) \<Rightarrow>
          if \<not> r then Inl (FsError EACCES src)
          else if map_of fs dst = Some Dir then Inl (FsError EISDIR dst)
          else Inr (AList.update dst (File True c) fs))"

text \<open>\<open>fs.rename(old, new)\<close> moves the entry and replaces a file that is at \<open>new\<close>.\<close>

definition fs_rename :: "filesys \<Rightarrow> path \<Rightarrow> path \<Rightarrow> jserror + filesys" where
  "fs_rename fs old new =
     (case map_of fs old of
        None \<Rightarrow> Inl (FsError ENOENT old)
      | Some n \<Rightarrow>
          if n \<noteq> Dir \<and> map_of fs new = Some Dir then Inl (FsError EISDIR new)
          else if old = new then Inr fs
          else Inr (AList.update new n (AList.delete old fs)))"

definition fs_writeFile :: "filesys \<Rightarrow> path \<Rightarrow> string \<Rightarrow> jserror + filesys" where
  "fs_writeFile fs p c =
     (case map_of fs p of
        None \<Rightarrow> Inr (AList.update p (File True c) fs)
      | Some Dir \<Rightarrow> Inl (FsError EISDIR p)
      | Some (File r old) \<Rightarrow> Inr (AList.update p (File r c) fs))"

text \<open>
  The entries of a directory: the name \<open>nm\<close> of every path of the store that
  \<open>path.join(dir, nm)\<close> gives back, with whether it is a directory.
\<close>

definition childName :: "path \<Rightarrow> path \<Rightarrow> string option" where
  "childName dir p =
     (if startsWith p (dir @ ''/'') then
        (let nm = drop (length dir + 1) p
         in if nm \<noteq> [] \<and> CHR ''/'' \<notin> set nm \<and> join2 dir nm = p then Some nm else None)
      else None)"

definition dirEntries :: "filesys \<Rightarrow> path \<Rightarrow> (string \<times> bool) list" where
  "dirEntries fs dir =
     List.map_filter
       (\<lambda>(p, n). case childName dir p of None \<Rightarrow> None | Some nm \<Rightarrow> Some (nm, n = Dir)) fs"

definition fs_readdir :: "filesys \<Rightarrow> path \<Rightarrow> jserror + (string \<times> bool) list" where
  "fs_readdir fs dir =
     (case map_of fs dir of
        None \<Rightarrow> Inl (FsError ENOENT dir)
      | Some Dir \<Rightarrow> Inr (dirEntries fs dir)
      | Some (File r c) \<Rightarrow> Inl (FsError ENOTDIR dir))"

section \<open>The platform and the state of a run\<close>

text \<open>
  What the exporter takes from its platform and does not define: the working directory of
  the process, the SHA-256 digest in hexadecimal (\<open>createHash("sha256")\<close>), the two URI
  built-ins (\<open>decodeURIComponent\<close> throws a \<open>URIError\<close> on a malformed escape: \<open>None\<close>),
  and the regular-expression engine for a pattern built at run time (\<open>new RegExp(src)\<close>
  throws a \<open>SyntaxError\<close> on a malformed pattern: \<open>None\<close>; otherwise its \<open>test\<close>).
\<close>

record env =
  cwd :: path
  sha256hex :: "string \<Rightarrow> string"
  decodeURIComponent :: "string \<Rightarrow> string option"
  encodeURIComponent :: "string \<Rightarrow> string"
  regExpTest :: "string \<Rightarrow> (string \<Rightarrow> bool) option"

text \<open>One constructor for each place that writes to the console.\<close>

datatype message =
    Warn string
  | Log string
  | ErrorComparing jserror
  | ErrorGenerating path jserror
  | ErrorMain jserror
  | ErrorUncaught jserror
  | ErrorUsage
  | ErrorInvalidInput

text \<open>
  The store and the four collections \<open>main\<close> creates and hands to every function: the two
  export registries (JavaScript \<open>Map\<close>s, in insertion order), the visited set, the rename
  table (an object used as a dictionary), and the console.  \<open>topLevel\<close> is bookkeeping of
  the model only: the paths \<open>processMarkdownFile\<close> has been called with.
\<close>

record state =
  files :: filesys
  uniqueAttachments :: "(path \<times> string) list"
  uniqueNotes :: "(path \<times> string) list"
  visitedNotes :: "string list"
  renamedFiles :: "(string \<times> string) list"
  console :: "message list"
  topLevel :: "path list"

definition VAULT_DIR :: path where
  "VAULT_DIR = ''/Users/avcton/Mind Palace''"

definition ATTACHMENTS_DIR :: path where
  "ATTACHMENTS_DIR = join2 VAULT_DIR ''_attachments''"

definition EXCALIDRAW_REPLACEMENT :: string where
  "EXCALIDRAW_REPLACEMENT = ''.dark.png''"

definition logMsg :: "message \<Rightarrow> state \<Rightarrow> state" where
  "logMsg m st = st\<lparr>console := console st @ [m]\<rparr>"

definition logWarning :: "string \<Rightarrow> state \<Rightarrow> state" where
  "logWarning m st = logMsg (Warn m) st"

section \<open>Copying and unique names\<close>

text \<open>
  \<open>copyFileToOutput\<close>: the three awaited calls run inside one \<open>try\<close>; the handler turns
  \<open>ENOENT\<close> into a warning and throws every other error again.  Directories created before
  a failure stay.
\<close>

definition copyHandler :: "path \<Rightarrow> jserror \<Rightarrow> state \<Rightarrow> unit result \<times> state" where
  "copyHandler sourcePath e st =
     (if isENOENT e then (Ok (), logWarning (''Source file not found: '' @ sourcePath) st)
      else (Throw e, st))"

definition copyFileToOutput :: "path \<Rightarrow> path \<Rightarrow> state \<Rightarrow> unit result \<times> state" where
  "copyFileToOutput sourcePath destinationPath st =
     (case fs_accessR (files st) sourcePath of
        Inl e \<Rightarrow> copyHandler sourcePath e st
      | Inr u \<Rightarrow>
          (case fs_mkdirp (files st) (dirname destinationPath) of
             Inl e \<Rightarrow> copyHandler sourcePath e st
           | Inr f1 \<Rightarrow>
               (case fs_copyFile f1 sourcePath destinationPath of
                  Inl e \<Rightarrow> copyHandler sourcePath e (st\<lparr>files := f1\<rparr>)
                | Inr f2 \<Rightarrow> (Ok (), st\<lparr>files := f2\<rparr>))))"

text \<open>The content-derived suffix: the first 8 characters of the hexadecimal digest.\<close>

definition contentSuffix :: "env \<Rightarrow> string \<Rightarrow> string" where
  "contentSuffix E fileContent = take 8 (sha256hex E fileContent)"

definition generateUniqueName :: "env \<Rightarrow> path \<Rightarrow> state \<Rightarrow> string result \<times> state" where
  "generateUniqueName E filePath st =
     (case fs_readFile (files st) filePath of
        Inr fileContent \<Rightarrow>
          (Ok (parseName filePath @ ''_'' @ contentSuffix E fileContent @ parseExt filePath), st)
      | Inl e \<Rightarrow> (Exit 1, logMsg (ErrorGenerating filePath e) st))"

section \<open>Links in a document\<close>

text \<open>
  The two regular expressions of \<open>parseMarkdownForLinks\<close> and of \<open>updateLinks\<close> are
  fixed, so they are translated by hand.  A dot of the pattern matches any character but
  a line terminator (of those, an 8-bit text has the line feed and the carriage return).
  \<open>hasScheme\<close> is the negative lookahead for a URI scheme,
  \<^verbatim>\<open>[a-zA-Z][a-zA-Z\d+\-.]*:\/\/\<close>.
\<close>

definition isLineTerminator :: "char \<Rightarrow> bool" where
  "isLineTerminator c = (c = CHR 0x0A \<or> c = CHR 0x0D)"

definition isAlpha :: "char \<Rightarrow> bool" where
  "isAlpha c = (let n = (of_char c :: nat) in (65 \<le> n \<and> n \<le> 90) \<or> (97 \<le> n \<and> n \<le> 122))"

definition isSchemeChar :: "char \<Rightarrow> bool" where
  "isSchemeChar c = (isAlnum c \<or> c = CHR ''+'' \<or> c = CHR ''-'' \<or> c = CHR ''.'')"

definition hasScheme :: "string \<Rightarrow> bool" where
  "hasScheme s =
     (case s of [] \<Rightarrow> False
      | c # cs \<Rightarrow> isAlpha c \<and> startsWith (dropWhile isSchemeChar cs) ''://'')"

text \<open>
  A lazy group \<^verbatim>\<open>(.*?)\<close> followed by the rest \<open>k\<close> of the pattern: the shortest run of
  characters after which \<open>k\<close> matches.  \<open>k\<close> returns what it captured and the text
  after the match.  \<open>lazyPlus\<close> is \<^verbatim>\<open>(.+?)\<close>.
\<close>

fun lazyDot :: "(string \<Rightarrow> 'a option) \<Rightarrow> string \<Rightarrow> string \<Rightarrow> (string \<times> 'a) option" where
  "lazyDot k acc [] = (case k [] of Some r \<Rightarrow> Some (rev acc, r) | None \<Rightarrow> None)"
| "lazyDot k acc (c # cs) =
     (case k (c # cs) of
        Some r \<Rightarrow> Some (rev acc, r)
      | None \<Rightarrow> if isLineTerminator c then None else lazyDot k (c # acc) cs)"

definition lazyStar :: "(string \<Rightarrow> 'a option) \<Rightarrow> string \<Rightarrow> (string \<times> 'a) option" where
  "lazyStar k s = lazyDot k [] s"

definition lazyPlus :: "(string \<Rightarrow> 'a option) \<Rightarrow> string \<Rightarrow> (string \<times> 'a) option" where
  "lazyPlus k s =
     (case s of [] \<Rightarrow> None
      | c # cs \<Rightarrow> if isLineTerminator c then None else lazyDot k [c] cs)"

definition closeWith :: "string \<Rightarrow> string \<Rightarrow> string option" where
  "closeWith d s = (if startsWith s d then Some (drop (length d) s) else None)"

text \<open>
  The wikilink pattern
  \<^verbatim>\<open>\[\[(?!scheme)(.+?)(?:\|(.+?))?\]\]\<close>
  at the start of \<open>s\<close>: the link, the alias if the optional group took part, and the
  length of the match.  \<open>parseMarkdownForLinks\<close> uses the same pattern without capturing
  the alias.
\<close>

definition wikiTail :: "string \<Rightarrow> (string option \<times> string) option" where
  "wikiTail t =
     (case (if startsWith t ''|'' then lazyPlus (closeWith '']]'') (drop 1 t) else None) of
        Some (alias, rest) \<Rightarrow> Some (Some alias, rest)
      | None \<Rightarrow> map_option (Pair None) (closeWith '']]'' t))"

definition wikilinkAt :: "string \<Rightarrow> ((string \<times> string option) \<times> nat) option" where
  "wikilinkAt s =
     (if startsWith s ''[['' \<and> \<not> hasScheme (drop 2 s) then
        (case lazyPlus wikiTail (drop 2 s) of
           Some (link, alias, rest) \<Rightarrow> Some ((link, alias), length s - length rest)
         | None \<Rightarrow> None)
      else None)"

text \<open>
  The Markdown link pattern at the start of \<open>s\<close>: the text, the link and the length of
  the match.  \<open>parseMarkdownForLinks\<close> has
  \<^verbatim>\<open>\[(.*?)\]\((?!scheme)(.*?)\)\<close>
  (\<open>nonEmpty = False\<close>), \<open>updateLinks\<close> has \<^verbatim>\<open>.+?\<close> in both groups (\<open>nonEmpty = True\<close>).
\<close>

definition lazyGroup :: "bool \<Rightarrow> (string \<Rightarrow> 'a option) \<Rightarrow> string \<Rightarrow> (string \<times> 'a) option" where
  "lazyGroup nonEmpty k s = (if nonEmpty then lazyPlus k s else lazyStar k s)"

definition mdTail :: "bool \<Rightarrow> string \<Rightarrow> (string \<times> string) option" where
  "mdTail nonEmpty t =
     (if startsWith t '']('' \<and> \<not> hasScheme (drop 2 t)
      then lazyGroup nonEmpty (closeWith '')'') (drop 2 t) else None)"

definition markdownLinkAt :: "bool \<Rightarrow> string \<Rightarrow> ((string \<times> string) \<times> nat) option" where
  "markdownLinkAt nonEmpty s =
     (if startsWith s ''['' then
        (case lazyGroup nonEmpty (mdTail nonEmpty) (drop 1 s) of
           Some (txt, link, rest) \<Rightarrow> Some ((txt, link), length s - length rest)
         | None \<Rightarrow> None)
      else None)"

text \<open>
  A global scan (\<open>exec\<close> in a loop, or \<open>replace\<close>) with a pattern \<open>m\<close>: the matches
  from left to right, none overlapping, and the characters between them.  \<open>skip\<close> counts
  the characters of the current match still to pass.
\<close>

fun scanFrom :: "(string \<Rightarrow> ('m \<times> nat) option) \<Rightarrow> nat \<Rightarrow> string \<Rightarrow> ('m + char) list" where
  "scanFrom m skip [] = []"
| "scanFrom m skip (c # cs) =
     (if 0 < skip then scanFrom m (skip - 1) cs
      else (case m (c # cs) of
              Some (x, len) \<Rightarrow> Inl x # scanFrom m (len - 1) cs
            | None \<Rightarrow> Inr c # scanFrom m 0 cs))"

fun matchesOf :: "('m + char) list \<Rightarrow> 'm list" where
  "matchesOf [] = []"
| "matchesOf (Inl x # r) = x # matchesOf r"
| "matchesOf (Inr c # r) = matchesOf r"

text \<open>
  \<open>processLink\<close>, with the two lists it pushes to as an argument pair (attachments,
  notes).
\<close>

definition processLink ::
  "env \<Rightarrow> string \<Rightarrow> string list \<times> string list \<Rightarrow> jserror + string list \<times> string list" where
  "processLink E link acc =
     (case decodeURIComponent E link of
        None \<Rightarrow> Inl URIError
      | Some decodedLink \<Rightarrow>
          let cleanLink = takeWhile (\<lambda>c. c \<noteq> CHR ''#'') decodedLink;
              extension = extname cleanLink
          in if extension \<noteq> [] \<and> extension \<noteq> ''.md'' then
               (if endsWith cleanLink ''.excalidraw''
                then Inr (fst acc @ [cleanLink @ EXCALIDRAW_REPLACEMENT], snd acc)
                else Inr (fst acc @ [cleanLink], snd acc))
             else Inr (fst acc, snd acc @ [if extension \<noteq> [] then cleanLink else cleanLink @ ''.md'']))"

fun processLinks ::
  "env \<Rightarrow> string list \<Rightarrow> string list \<times> string list \<Rightarrow> jserror + string list \<times> string list" where
  "processLinks E [] acc = Inr acc"
| "processLinks E (l # ls) acc =
     (case processLink E l acc of Inl e \<Rightarrow> Inl e | Inr acc' \<Rightarrow> processLinks E ls acc')"

definition parseContent :: "env \<Rightarrow> string \<Rightarrow> jserror + string list \<times> string list" where
  "parseContent E content =
     processLinks E
       (map fst (matchesOf (scanFrom wikilinkAt 0 content))
        @ map snd (matchesOf (scanFrom (markdownLinkAt False) 0 content)))
       ([], [])"

definition parseMarkdownForLinks ::
  "env \<Rightarrow> path \<Rightarrow> state \<Rightarrow> jserror + string list \<times> string list" where
  "parseMarkdownForLinks E filePath st =
     (case fs_readFile (files st) filePath of
        Inl e \<Rightarrow> Inl e
      | Inr content \<Rightarrow> parseContent E content)"

section \<open>Path resolution\<close>

text \<open>
  \<open>firstHit\<close> is the loop of \<open>findFileInVault\<close>: it tries the entries in order and
  returns at the first one that gives a path (or throws).
\<close>

fun firstHit :: "('a \<Rightarrow> jserror + path option) \<Rightarrow> 'a list \<Rightarrow> jserror + path option" where
  "firstHit f [] = Inr None"
| "firstHit f (x # xs) = (case f x of Inr None \<Rightarrow> firstHit f xs | r \<Rightarrow> r)"

lemma firstHit_cong [fundef_cong]:
  "xs = ys \<Longrightarrow> (\<And>x. x \<in> set ys \<Longrightarrow> f x = g x) \<Longrightarrow> firstHit f xs = firstHit g ys"
  by (induction ys arbitrary: xs) (auto split: sum.splits option.splits)

definition maxLen :: "filesys \<Rightarrow> nat" where
  "maxLen fs = fold (\<lambda>e m. max (length (fst e)) m) fs 0"

lemma fold_max_ge: "m \<le> fold (\<lambda>e m. max (length (fst e)) m) fs (m::nat)"
  by (induction fs arbitrary: m) (auto intro: order_trans [OF max.cobounded2])

lemma fold_max_mem:
  "e \<in> set fs \<Longrightarrow> length (fst e) \<le> fold (\<lambda>e m. max (length (fst e)) m) fs (m::nat)"
proof (induction fs arbitrary: m)
  case Nil
  then show ?case by simp
next
  case (Cons a fs)
  show ?case
  proof (cases "e = a")
    case True
    have "length (fst a) \<le> max (length (fst a)) m" by simp
    also have "\<dots> \<le> fold (\<lambda>e m. max (length (fst e)) m) fs (max (length (fst a)) m)"
      by (rule fold_max_ge)
    finally show ?thesis using True by simp
  next
    case False
    with Cons show ?thesis by simp
  qed
qed

lemma dirEntries_child:
  assumes "(nm, b) \<in> set (dirEntries fs dir)"
  shows "\<exists>n. (join2 dir nm, n) \<in> set fs \<and> b = (n = Dir) \<and> length dir < length (join2 dir nm)"
proof -
  from assms obtain p n where pn: "(p, n) \<in> set fs" and c: "childName dir p = Some nm"
    and b: "b = (n = Dir)"
    by (auto simp: dirEntries_def List.map_filter_def split: option.splits)
  from c have j: "join2 dir nm = p" and s: "startsWith p (dir @ ''/'')"
    by (auto simp: childName_def Let_def split: if_splits)
  from s have "length (dir @ ''/'') \<le> length p"
    by (metis startsWith_def length_take min.cobounded1)
  with pn j b show ?thesis by auto
qed

function findFileInVault :: "filesys \<Rightarrow> path \<Rightarrow> string \<Rightarrow> jserror + path option" where
  "findFileInVault fs vaultDir fileName =
     (case fs_readdir fs vaultDir of
        Inl e \<Rightarrow> Inl e
      | Inr entries \<Rightarrow>
          firstHit
            (\<lambda>(name, isDirectory).
               if isDirectory then findFileInVault fs (join2 vaultDir name) fileName
               else if name = fileName then Inr (Some (join2 vaultDir name))
               else Inr None)
            entries)"
  by pat_completeness auto
termination
proof (relation "measure (\<lambda>(fs, d, n). maxLen fs - length d)")
  show "wf (measure (\<lambda>(fs, d, n). maxLen fs - length d))" by simp
next
  fix fs :: filesys and vaultDir fileName :: string and entries x and name :: string and isD :: bool
  assume rd: "fs_readdir fs vaultDir = Inr entries" and x: "x \<in> set entries"
    and xe: "(name, isD) = x" and d: "isD"
  from rd have "entries = dirEntries fs vaultDir"
    by (auto simp: fs_readdir_def split: option.splits node.splits)
  with x xe have "(name, isD) \<in> set (dirEntries fs vaultDir)" by simp
  from dirEntries_child [OF this] obtain n where
    m: "(join2 vaultDir name, n) \<in> set fs" and l: "length vaultDir < length (join2 vaultDir name)"
    by blast
  from fold_max_mem [OF m, of 0] have "length (join2 vaultDir name) \<le> maxLen fs"
    by (simp add: maxLen_def)
  with l show "((fs, join2 vaultDir name, fileName), fs, vaultDir, fileName)
      \<in> measure (\<lambda>(fs, d, n). maxLen fs - length d)"
    by simp
qed

declare findFileInVault.simps [simp del]

definition resolveFilePath :: "env \<Rightarrow> filesys \<Rightarrow> path \<Rightarrow> string \<Rightarrow> jserror + path option" where
  "resolveFilePath E fs basePath link =
     (if CHR ''/'' \<notin> set link then
        (case fs_access fs (join2 ATTACHMENTS_DIR link) of
           Inr u \<Rightarrow> Inr (Some (join2 ATTACHMENTS_DIR link))
         | Inl e \<Rightarrow> findFileInVault fs VAULT_DIR link)
      else if startsWith link ''../'' \<or> startsWith link ''./'' then
        Inr (Some (resolve (cwd E) [dirname basePath, link]))
      else Inr (Some (join2 VAULT_DIR link)))"


section \<open>The export registries\<close>

text \<open>
  Both \<open>resolveAndCopyAttachments\<close> and \<open>resolveAndCopyNotes\<close> first look for an entry
  with the same content: the loop over the registry with its \<open>try\<close> around the four
  reads.  A failed read is written to the console and the loop goes on.
\<close>

definition compareFiles :: "filesys \<Rightarrow> path \<Rightarrow> path \<Rightarrow> jserror + bool" where
  "compareFiles fs existingPath resolvedPath =
     (case fs_statSize fs existingPath of
        Inl e \<Rightarrow> Inl e
      | Inr existingSize \<Rightarrow>
          (case fs_statSize fs resolvedPath of
             Inl e \<Rightarrow> Inl e
           | Inr currentSize \<Rightarrow>
               if existingSize = currentSize then
                 (case fs_readFile fs existingPath of
                    Inl e \<Rightarrow> Inl e
                  | Inr existingFileContent \<Rightarrow>
                      (case fs_readFile fs resolvedPath of
                         Inl e \<Rightarrow> Inl e
                       | Inr currentFileContent \<Rightarrow>
                           Inr (existingFileContent = currentFileContent)))
               else Inr False))"

fun findSameContent ::
  "string \<Rightarrow> path \<Rightarrow> (path \<times> string) list \<Rightarrow> state \<Rightarrow> path option \<times> state" where
  "findSameContent resolvedName resolvedPath [] st = (None, st)"
| "findSameContent resolvedName resolvedPath ((existingPath, ref) # rest) st =
     (if basename existingPath = resolvedName then
        (case compareFiles (files st) existingPath resolvedPath of
           Inl err \<Rightarrow>
             findSameContent resolvedName resolvedPath rest (logMsg (ErrorComparing err) st)
         | Inr same \<Rightarrow>
             if same then (Some existingPath, st)
             else findSameContent resolvedName resolvedPath rest st)
      else findSameContent resolvedName resolvedPath rest st)"

text \<open>
  The renaming of the existing entry, the same statements in both functions: the unique
  name of the existing file, \<open>fs.rename\<close> inside the flat directory, the registry entry
  moved to the new path, and the rename table set for the reference of the existing entry.
  The registry is handed over and returned; the caller stores it.
\<close>

definition renameExisting ::
  "env \<Rightarrow> path \<Rightarrow> path \<times> string \<Rightarrow> (path \<times> string) list \<Rightarrow> state
     \<Rightarrow> (path \<times> string) list result \<times> state" where
  "renameExisting E dir entry registry st =
     (case entry of (existingPath, ref) \<Rightarrow>
        (case generateUniqueName E existingPath st of
           (Ok newExistingName, st1) \<Rightarrow>
             (case fs_rename (files st1) (join2 dir (basename existingPath))
                     (join2 dir newExistingName) of
                Inl e \<Rightarrow> (Throw e, st1)
              | Inr f \<Rightarrow>
                  (Ok (AList.update (join2 dir newExistingName) ref
                         (AList.delete existingPath registry)),
                   st1\<lparr>files := f,
                       renamedFiles := AList.update ref newExistingName (renamedFiles st1)\<rparr>))
         | (Throw e, st1) \<Rightarrow> (Throw e, st1)
         | (Exit n, st1) \<Rightarrow> (Exit n, st1)))"

text \<open>
  \<open>existingCheckRegex\<close> is built from the stem at run time:
  \<^verbatim>\<open>^stem(_[a-zA-Z0-9]+)?\.[a-zA-Z0-9]+$\<close>.
  The stem is not escaped.  Where it holds no character that is special in a pattern other
  than the dot, the pattern is translated by hand (a dot of the stem matches any character
  but a line terminator); for every other stem the pattern goes to the platform's engine.
\<close>

definition regexMeta :: string where
  "regexMeta = CHR 0x5C # ''^$*+?()[]{}|''"

fun matchStem :: "string \<Rightarrow> string \<Rightarrow> string option" where
  "matchStem [] s = Some s"
| "matchStem (p # ps) [] = None"
| "matchStem (p # ps) (c # cs) =
     (if (p = CHR ''.'' \<and> \<not> isLineTerminator c) \<or> (p \<noteq> CHR ''.'' \<and> p = c)
      then matchStem ps cs else None)"

definition matchDotExt :: "string \<Rightarrow> bool" where
  "matchDotExt s = (case s of [] \<Rightarrow> False | c # cs \<Rightarrow> c = CHR ''.'' \<and> cs \<noteq> [] \<and> list_all isAlnum cs)"

definition matchUniqueTail :: "string \<Rightarrow> bool" where
  "matchUniqueTail s =
     ((case s of [] \<Rightarrow> False
       | c # cs \<Rightarrow> c = CHR ''_'' \<and> takeWhile isAlnum cs \<noteq> [] \<and> matchDotExt (dropWhile isAlnum cs))
      \<or> matchDotExt s)"

definition existingCheckSource :: "string \<Rightarrow> string" where
  "existingCheckSource stem = ''^'' @ stem @ ''(_[a-zA-Z0-9]+)?'' @ [CHR 0x5C] @ ''.[a-zA-Z0-9]+$''"

definition existingCheckRegex :: "env \<Rightarrow> string \<Rightarrow> jserror + (string \<Rightarrow> bool)" where
  "existingCheckRegex E stem =
     (if list_all (\<lambda>c. c \<notin> set regexMeta) stem then
        Inr (\<lambda>name. case matchStem stem name of None \<Rightarrow> False | Some rest \<Rightarrow> matchUniqueTail rest)
      else (case regExpTest E (existingCheckSource stem) of
              None \<Rightarrow> Inl SyntaxError
            | Some t \<Rightarrow> Inr t))"

definition ensureDir :: "path \<Rightarrow> state \<Rightarrow> unit result \<times> state" where
  "ensureDir dir st =
     (case fs_access (files st) dir of
        Inr u \<Rightarrow> (Ok (), st)
      | Inl e \<Rightarrow>
          (case fs_mkdir (files st) dir of
             Inl e' \<Rightarrow> (Throw e', st)
           | Inr f \<Rightarrow> (Ok (), st\<lparr>files := f\<rparr>)))"

section \<open>Attachments\<close>

text \<open>
  Three groups of statements stand in both \<open>resolveAndCopyAttachments\<close> and
  \<open>resolveAndCopyNotes\<close>, word for word but for the names of the variables; each is
  one function here.  \<open>renameCollision\<close> looks for the first entry whose basename is the
  resolved name and renames it.  \<open>copyUnder\<close> chooses the name (the unique name if a
  collision was detected, with its entry in the rename table, else the resolved name),
  copies the file into the flat directory and returns the destination.
\<close>

definition renameCollision ::
  "env \<Rightarrow> path \<Rightarrow> string \<Rightarrow> (path \<times> string) list \<Rightarrow> state
     \<Rightarrow> (path \<times> string) list result \<times> state" where
  "renameCollision E dir resolvedName registry st =
     (case find (\<lambda>(existingPath, ref). basename existingPath = resolvedName) registry of
        None \<Rightarrow> (Ok registry, st)
      | Some entry \<Rightarrow> renameExisting E dir entry registry st)"

definition copyUnder ::
  "env \<Rightarrow> path \<Rightarrow> string \<Rightarrow> path \<Rightarrow> bool \<Rightarrow> state \<Rightarrow> path result \<times> state" where
  "copyUnder E dir ref resolvedPath collisionDetected st =
     (case (if collisionDetected then generateUniqueName E resolvedPath st
            else (Ok (basename resolvedPath), st)) of
        (Throw e, st1) \<Rightarrow> (Throw e, st1)
      | (Exit n, st1) \<Rightarrow> (Exit n, st1)
      | (Ok uniqueName, st1) \<Rightarrow>
          (case copyFileToOutput resolvedPath (join2 dir uniqueName)
                  (if collisionDetected
                   then st1\<lparr>renamedFiles := AList.update ref uniqueName (renamedFiles st1)\<rparr>
                   else st1) of
             (Ok u, st2) \<Rightarrow> (Ok (join2 dir uniqueName), st2)
           | (Throw e, st2) \<Rightarrow> (Throw e, st2)
           | (Exit n, st2) \<Rightarrow> (Exit n, st2)))"

text \<open>
  The body of the loop of \<open>resolveAndCopyAttachments\<close> after the path is resolved.  The
  flag \<open>collisionDetected\<close> set in the renaming loop is overwritten by the test of the
  pattern against the registry, which by then holds the renamed entry.
\<close>

definition exportAttachment ::
  "env \<Rightarrow> path \<Rightarrow> string \<Rightarrow> path \<Rightarrow> state \<Rightarrow> unit result \<times> state" where
  "exportAttachment E globalAttachmentsDir attachment resolvedPath st =
     (case findSameContent (basename resolvedPath) resolvedPath (uniqueAttachments st) st of
        (Some existingAttachmentPath, st1) \<Rightarrow>
          (Ok (), logMsg (Log (''Attachment already exists (same content): '' @ attachment)) st1)
      | (None, st1) \<Rightarrow>
          (case renameCollision E globalAttachmentsDir (basename resolvedPath)
                  (uniqueAttachments st1) st1 of
             (Throw e, st2) \<Rightarrow> (Throw e, st2)
           | (Exit n, st2) \<Rightarrow> (Exit n, st2)
           | (Ok registry, st2) \<Rightarrow>
               (case existingCheckRegex E (parseName (basename resolvedPath)) of
                  Inl e \<Rightarrow> (Throw e, st2\<lparr>uniqueAttachments := registry\<rparr>)
                | Inr existingCheck \<Rightarrow>
                    (case copyUnder E globalAttachmentsDir attachment resolvedPath
                            (list_ex (\<lambda>(existingPath, ref). existingCheck (basename existingPath))
                               registry)
                            (st2\<lparr>uniqueAttachments := registry\<rparr>) of
                       (Ok destinationPath, st3) \<Rightarrow>
                         (Ok (),
                          st3\<lparr>uniqueAttachments :=
                                AList.update destinationPath attachment (uniqueAttachments st3)\<rparr>)
                     | (Throw e, st3) \<Rightarrow> (Throw e, st3)
                     | (Exit n, st3) \<Rightarrow> (Exit n, st3)))))"

definition attachmentStep ::
  "env \<Rightarrow> string \<Rightarrow> path \<Rightarrow> path \<Rightarrow> state \<Rightarrow> unit result \<times> state" where
  "attachmentStep E attachment basePath outputDir st =
     (case resolveFilePath E (files st) basePath attachment of
        Inl e \<Rightarrow> (Throw e, st)
      | Inr None \<Rightarrow> (Ok (), logWarning (''Attachment not found: '' @ attachment) st)
      | Inr (Some resolvedPath) \<Rightarrow>
          exportAttachment E (join2 outputDir ''attachments'') attachment resolvedPath st)"

fun attachmentsLoop ::
  "env \<Rightarrow> string list \<Rightarrow> path \<Rightarrow> path \<Rightarrow> state \<Rightarrow> unit result \<times> state" where
  "attachmentsLoop E [] basePath outputDir st = (Ok (), st)"
| "attachmentsLoop E (attachment # rest) basePath outputDir st =
     (case attachmentStep E attachment basePath outputDir st of
        (Ok u, st1) \<Rightarrow> attachmentsLoop E rest basePath outputDir st1
      | (Throw e, st1) \<Rightarrow> (Throw e, st1)
      | (Exit n, st1) \<Rightarrow> (Exit n, st1))"

definition resolveAndCopyAttachments ::
  "env \<Rightarrow> string list \<Rightarrow> path \<Rightarrow> path \<Rightarrow> state \<Rightarrow> unit result \<times> state" where
  "resolveAndCopyAttachments E attachments basePath outputDir st =
     (case ensureDir (join2 outputDir ''attachments'') st of
        (Ok u, st1) \<Rightarrow> attachmentsLoop E attachments basePath outputDir st1
      | (Throw e, st1) \<Rightarrow> (Throw e, st1)
      | (Exit n, st1) \<Rightarrow> (Exit n, st1))"

section \<open>Notes\<close>

text \<open>
  The test ``already in the output directory'': \<open>path.relative\<close> from the output
  directory to the stem of the resolved name (which \<open>path.relative\<close> resolves against the
  working directory) neither starts with two dots nor is absolute.
\<close>

definition noteInPlace :: "env \<Rightarrow> path \<Rightarrow> string \<Rightarrow> bool" where
  "noteInPlace E outputDir resolvedName =
     (let relativePathFromOutput = relative (cwd E) outputDir (parseName resolvedName)
      in \<not> startsWith relativePathFromOutput ''..'' \<and> \<not> isAbsolute relativePathFromOutput)"

text \<open>
  The body of the loop of \<open>resolveAndCopyNotes\<close> from the search for the same content to
  the registration of the copy.  The result says whether the note was exported (\<open>True\<close>)
  or skipped as a duplicate (\<open>False\<close>).  Here the pattern is tested before the renaming
  and the flag is set after it.
\<close>

definition exportNote ::
  "env \<Rightarrow> path \<Rightarrow> string \<Rightarrow> path \<Rightarrow> state \<Rightarrow> bool result \<times> state" where
  "exportNote E referencesFolder note resolvedPath st =
     (case findSameContent (basename resolvedPath) resolvedPath (uniqueNotes st) st of
        (Some existingNotePath, st1) \<Rightarrow>
          (Ok False, logMsg (Log (''Note already exists (same content): '' @ note)) st1)
      | (None, st1) \<Rightarrow>
          (case existingCheckRegex E (parseName (basename resolvedPath)) of
             Inl e \<Rightarrow> (Throw e, st1)
           | Inr existingCheck \<Rightarrow>
               (case renameCollision E referencesFolder (basename resolvedPath)
                       (uniqueNotes st1) st1 of
                  (Throw e, st2) \<Rightarrow> (Throw e, st2)
                | (Exit n, st2) \<Rightarrow> (Exit n, st2)
                | (Ok registry, st2) \<Rightarrow>
                    (case copyUnder E referencesFolder note resolvedPath
                            (list_ex (\<lambda>(existingPath, ref). existingCheck (basename existingPath))
                               (uniqueNotes st1)
                             \<or> find (\<lambda>(existingPath, ref). basename existingPath
                                                             = basename resolvedPath)
                                  (uniqueNotes st1) \<noteq> None)
                            (st2\<lparr>uniqueNotes := registry\<rparr>) of
                       (Ok finalPath, st3) \<Rightarrow>
                         (Ok True,
                          st3\<lparr>uniqueNotes := AList.update finalPath note (uniqueNotes st3)\<rparr>)
                     | (Throw e, st3) \<Rightarrow> (Throw e, st3)
                     | (Exit n, st3) \<Rightarrow> (Exit n, st3)))))"

text \<open>
  One turn of the loop of \<open>resolveAndCopyNotes\<close> up to the recursive call: \<open>Ok None\<close>
  is \<open>continue\<close>, \<open>Ok (Some (nestedNotes, resolvedPath))\<close> are the arguments of the
  recursive call.  The file is parsed twice, as in the source.
\<close>

definition noteStep ::
  "env \<Rightarrow> string \<Rightarrow> path \<Rightarrow> path \<Rightarrow> state \<Rightarrow> (string list \<times> path) option result \<times> state" where
  "noteStep E note basePath outputDir st =
     (if note \<in> set (visitedNotes st) then (Ok None, st)
      else
        let st0 = st\<lparr>visitedNotes := visitedNotes st @ [note]\<rparr> in
        case resolveFilePath E (files st0) basePath note of
          Inl e \<Rightarrow> (Throw e, st0)
        | Inr None \<Rightarrow> (Ok None, logWarning (''Note not found: '' @ note) st0)
        | Inr (Some resolvedPath) \<Rightarrow>
            if noteInPlace E outputDir (basename resolvedPath) then
              (Ok None, st0\<lparr>uniqueNotes := AList.update resolvedPath note (uniqueNotes st0)\<rparr>)
            else
              (case exportNote E (join2 outputDir ''references'') note resolvedPath st0 of
                 (Throw e, st1) \<Rightarrow> (Throw e, st1)
               | (Exit n, st1) \<Rightarrow> (Exit n, st1)
               | (Ok False, st1) \<Rightarrow> (Ok None, st1)
               | (Ok True, st1) \<Rightarrow>
                   (case parseMarkdownForLinks E resolvedPath st1 of
                      Inl e \<Rightarrow> (Throw e, st1)
                    | Inr (attachments, ns) \<Rightarrow>
                        (case resolveAndCopyAttachments E attachments resolvedPath outputDir st1 of
                           (Throw e, st2) \<Rightarrow> (Throw e, st2)
                         | (Exit n, st2) \<Rightarrow> (Exit n, st2)
                         | (Ok u, st2) \<Rightarrow>
                             (case parseMarkdownForLinks E resolvedPath st2 of
                                Inl e \<Rightarrow> (Throw e, st2)
                              | Inr (as, nestedNotes) \<Rightarrow>
                                  (Ok (Some (nestedNotes, resolvedPath)), st2))))))"

text \<open>
  \<open>resolveAndCopyNotes\<close> calls itself for the notes of every note it exports.  The fuel
  bounds the depth of these calls: \<open>None\<close> is a walk that would go deeper.  The loop over
  the notes of one call is \<open>notesLoop\<close>.
\<close>

fun resolveAndCopyNotes ::
  "nat \<Rightarrow> env \<Rightarrow> string list \<Rightarrow> path \<Rightarrow> path \<Rightarrow> state \<Rightarrow> (unit result \<times> state) option"
and notesLoop ::
  "nat \<Rightarrow> env \<Rightarrow> string list \<Rightarrow> path \<Rightarrow> path \<Rightarrow> state \<Rightarrow> (unit result \<times> state) option"
where
  "resolveAndCopyNotes 0 E notes basePath outputDir st = None"
| "resolveAndCopyNotes (Suc fuel) E notes basePath outputDir st =
     (case ensureDir (join2 outputDir ''references'') st of
        (Ok u, st1) \<Rightarrow> notesLoop fuel E notes basePath outputDir st1
      | (Throw e, st1) \<Rightarrow> Some (Throw e, st1)
      | (Exit n, st1) \<Rightarrow> Some (Exit n, st1))"
| "notesLoop fuel E [] basePath outputDir st = Some (Ok (), st)"
| "notesLoop fuel E (note # rest) basePath outputDir st =
     (case noteStep E note basePath outputDir st of
        (Throw e, st1) \<Rightarrow> Some (Throw e, st1)
      | (Exit n, st1) \<Rightarrow> Some (Exit n, st1)
      | (Ok None, st1) \<Rightarrow> notesLoop fuel E rest basePath outputDir st1
      | (Ok (Some (nestedNotes, resolvedPath)), st1) \<Rightarrow>
          (case resolveAndCopyNotes fuel E nestedNotes resolvedPath outputDir st1 of
             None \<Rightarrow> None
           | Some (Ok u, st2) \<Rightarrow> notesLoop fuel E rest basePath outputDir st2
           | Some (Throw e, st2) \<Rightarrow> Some (Throw e, st2)
           | Some (Exit n, st2) \<Rightarrow> Some (Exit n, st2)))"

section \<open>Top-level documents\<close>

datatype inputType = FileInput | FolderInput

definition processMarkdownFile ::
  "nat \<Rightarrow> env \<Rightarrow> path \<Rightarrow> path \<Rightarrow> inputType \<Rightarrow> state \<Rightarrow> (unit result \<times> state) option" where
  "processMarkdownFile fuel E filePath outputDir inputType st =
     (let destinationPath =
            (if inputType = FileInput then join2 outputDir (basename filePath)
             else join2 outputDir (relative (cwd E) VAULT_DIR filePath))
      in case copyFileToOutput filePath destinationPath
                (st\<lparr>topLevel := topLevel st @ [filePath]\<rparr>) of
           (Throw e, st1) \<Rightarrow> Some (Throw e, st1)
         | (Exit n, st1) \<Rightarrow> Some (Exit n, st1)
         | (Ok u, st1) \<Rightarrow>
             (case parseMarkdownForLinks E filePath st1 of
                Inl e \<Rightarrow> Some (Throw e, st1)
              | Inr (attachments, notes) \<Rightarrow>
                  (case resolveAndCopyAttachments E attachments filePath outputDir st1 of
                     (Throw e, st2) \<Rightarrow> Some (Throw e, st2)
                   | (Exit n, st2) \<Rightarrow> Some (Exit n, st2)
                   | (Ok u, st2) \<Rightarrow> resolveAndCopyNotes fuel E notes filePath outputDir st2)))"

text \<open>
  \<open>processFolder\<close> reads the directory once and goes through its entries; the fuel
  bounds the depth of the directories and is handed to the walks it starts.
\<close>

fun processFolder ::
  "nat \<Rightarrow> env \<Rightarrow> path \<Rightarrow> path \<Rightarrow> state \<Rightarrow> (unit result \<times> state) option"
and folderLoop ::
  "nat \<Rightarrow> env \<Rightarrow> path \<Rightarrow> (string \<times> bool) list \<Rightarrow> path \<Rightarrow> state \<Rightarrow> (unit result \<times> state) option"
where
  "processFolder 0 E folderPath outputDir st = None"
| "processFolder (Suc fuel) E folderPath outputDir st =
     (case fs_readdir (files st) folderPath of
        Inl e \<Rightarrow> Some (Throw e, st)
      | Inr entries \<Rightarrow> folderLoop fuel E folderPath entries outputDir st)"
| "folderLoop fuel E folderPath [] outputDir st = Some (Ok (), st)"
| "folderLoop fuel E folderPath ((name, isDirectory) # rest) outputDir st =
     (if startsWith name ''_'' then
        folderLoop fuel E folderPath rest outputDir
          (logWarning (''Skipping file or folder: '' @ name) st)
      else
        (case (if isDirectory then processFolder fuel E (join2 folderPath name) outputDir st
               else if endsWith name ''.md''
                 then processMarkdownFile fuel E (join2 folderPath name) outputDir FolderInput st
               else Some (Ok (), st)) of
           None \<Rightarrow> None
         | Some (Ok u, st1) \<Rightarrow> folderLoop fuel E folderPath rest outputDir st1
         | Some (Throw e, st1) \<Rightarrow> Some (Throw e, st1)
         | Some (Exit n, st1) \<Rightarrow> Some (Exit n, st1)))"

section \<open>The rewriting of links\<close>

text \<open>
  A property of the rename table counts as present when its value is truthy, that is, not
  the empty string.  (The table is an object literal; the properties it inherits from
  \<open>Object.prototype\<close> are not modelled.)
\<close>

definition lookupRenamed :: "(string \<times> string) list \<Rightarrow> string \<Rightarrow> string option" where
  "lookupRenamed renamed k =
     (case map_of renamed k of None \<Rightarrow> None | Some v \<Rightarrow> if v = [] then None else Some v)"

text \<open>The two lookups of both callbacks: \<open>renamedFiles[key] || cleanedLink\<close>, then once more.\<close>

definition followRename :: "(string \<times> string) list \<Rightarrow> string \<Rightarrow> string \<Rightarrow> string" where
  "followRename renamed key cleanedLink =
     (let updatedName = (case lookupRenamed renamed key of Some v \<Rightarrow> v | None \<Rightarrow> cleanedLink)
      in case lookupRenamed renamed updatedName of Some v \<Rightarrow> v | None \<Rightarrow> updatedName)"

definition rewriteWikilink ::
  "env \<Rightarrow> (string \<times> string) list \<Rightarrow> string \<times> string option \<Rightarrow> jserror + string" where
  "rewriteWikilink E renamed m =
     (case m of (link, alias) \<Rightarrow>
        (case decodeURIComponent E link of
           None \<Rightarrow> Inl URIError
         | Some decodedLink \<Rightarrow>
             let isAttachmentLink = (extname link \<noteq> []);
                 cleanedLink = basename decodedLink;
                 updatedLink = decodedLink @ (if isAttachmentLink then [] else ''.md'');
                 updatedName = followRename renamed updatedLink cleanedLink
             in Inr (case alias of
                       Some a \<Rightarrow> ''[['' @ updatedName @ ''|'' @ a @ '']]''
                     | None \<Rightarrow> ''[['' @ updatedName @ '']]'')))"

definition rewriteMarkdownLink ::
  "env \<Rightarrow> (string \<times> string) list \<Rightarrow> string \<times> string \<Rightarrow> jserror + string" where
  "rewriteMarkdownLink E renamed m =
     (case m of (txt, link) \<Rightarrow>
        (case decodeURIComponent E link of
           None \<Rightarrow> Inl URIError
         | Some decodedLink \<Rightarrow>
             let cleanedLink = basename decodedLink;
                 updatedName = followRename renamed decodedLink cleanedLink
             in Inr (''['' @ txt @ '']('' @ encodeURIComponent E updatedName @ '')'')))"

text \<open>\<open>content.replace(regex, callback)\<close> on the result of the scan.\<close>

fun replaceMatches :: "('m \<Rightarrow> jserror + string) \<Rightarrow> ('m + char) list \<Rightarrow> jserror + string" where
  "replaceMatches f [] = Inr []"
| "replaceMatches f (Inr c # r) =
     (case replaceMatches f r of Inl e \<Rightarrow> Inl e | Inr t \<Rightarrow> Inr (c # t))"
| "replaceMatches f (Inl x # r) =
     (case f x of
        Inl e \<Rightarrow> Inl e
      | Inr s \<Rightarrow> (case replaceMatches f r of Inl e \<Rightarrow> Inl e | Inr t \<Rightarrow> Inr (s @ t)))"

definition rewriteContent :: "env \<Rightarrow> (string \<times> string) list \<Rightarrow> string \<Rightarrow> jserror + string" where
  "rewriteContent E renamed content =
     (case replaceMatches (rewriteWikilink E renamed) (scanFrom wikilinkAt 0 content) of
        Inl e \<Rightarrow> Inl e
      | Inr content1 \<Rightarrow>
          replaceMatches (rewriteMarkdownLink E renamed)
            (scanFrom (markdownLinkAt True) 0 content1))"

definition updateLinks :: "env \<Rightarrow> path \<Rightarrow> state \<Rightarrow> unit result \<times> state" where
  "updateLinks E filePath st =
     (case fs_readFile (files st) filePath of
        Inl e \<Rightarrow> (Throw e, st)
      | Inr content \<Rightarrow>
          (case rewriteContent E (renamedFiles st) content of
             Inl e \<Rightarrow> (Throw e, st)
           | Inr content' \<Rightarrow>
               (case fs_writeFile (files st) filePath content' of
                  Inl e \<Rightarrow> (Throw e, st)
                | Inr f \<Rightarrow> (Ok (), st\<lparr>files := f\<rparr>))))"

fun updateLinksInDirectory :: "nat \<Rightarrow> env \<Rightarrow> path \<Rightarrow> state \<Rightarrow> (unit result \<times> state) option"
and updateLoop ::
  "nat \<Rightarrow> env \<Rightarrow> path \<Rightarrow> (string \<times> bool) list \<Rightarrow> state \<Rightarrow> (unit result \<times> state) option"
where
  "updateLinksInDirectory 0 E dir st = None"
| "updateLinksInDirectory (Suc fuel) E dir st =
     (case fs_readdir (files st) dir of
        Inl e \<Rightarrow> Some (Throw e, st)
      | Inr entries \<Rightarrow> updateLoop fuel E dir entries st)"
| "updateLoop fuel E dir [] st = Some (Ok (), st)"
| "updateLoop fuel E dir ((name, isDirectory) # rest) st =
     (case (if isDirectory then updateLinksInDirectory fuel E (join2 dir name) st
            else if endsWith name ''.md'' then Some (updateLinks E (join2 dir name) st)
            else Some (Ok (), st)) of
        None \<Rightarrow> None
      | Some (Ok u, st1) \<Rightarrow> updateLoop fuel E dir rest st1
      | Some (Throw e, st1) \<Rightarrow> Some (Throw e, st1)
      | Some (Exit n, st1) \<Rightarrow> Some (Exit n, st1))"

section \<open>\<open>main\<close>\<close>

definition initialState :: "filesys \<Rightarrow> state" where
  "initialState fs =
     \<lparr>files = fs, uniqueAttachments = [], uniqueNotes = [], visitedNotes = [],
      renamedFiles = [], console = [], topLevel = []\<rparr>"

definition stripMd :: "string \<Rightarrow> string" where
  "stripMd s = (if endsWith s ''.md'' then take (length s - 3) s else s)"

text \<open>The \<open>try\<close> block of \<open>main\<close>; \<open>nd\<close> is what \<open>fs.stat\<close> found at the input path.\<close>

definition mainBody ::
  "nat \<Rightarrow> env \<Rightarrow> path \<Rightarrow> node \<Rightarrow> path \<Rightarrow> state \<Rightarrow> (unit result \<times> state) option" where
  "mainBody fuel E fullPath nd outputDir st =
     (if nd \<noteq> Dir \<and> \<not> endsWith fullPath ''.md'' then Some (Ok (), logMsg ErrorInvalidInput st)
      else
        (case (if nd = Dir then processFolder fuel E fullPath outputDir st
               else processMarkdownFile fuel E fullPath outputDir FileInput st) of
           None \<Rightarrow> None
         | Some (Ok u, st1) \<Rightarrow> updateLinksInDirectory fuel E outputDir st1
         | Some (Throw e, st1) \<Rightarrow> Some (Throw e, st1)
         | Some (Exit n, st1) \<Rightarrow> Some (Exit n, st1)))"

text \<open>
  \<open>main\<close> and the \<open>catch\<close> on its promise: the exit code of the process and the final
  state.  An exception caught by the handler of \<open>main\<close>, or by the \<open>catch\<close> on its
  promise, is written to the console and the process ends with code 0; only
  \<open>process.exit(1)\<close> ends it with code 1.
\<close>

definition main :: "nat \<Rightarrow> env \<Rightarrow> string option \<Rightarrow> filesys \<Rightarrow> (nat \<times> state) option" where
  "main fuel E inputPath fs =
     (case inputPath of
        None \<Rightarrow> Some (1, logMsg ErrorUsage (initialState fs))
      | Some ip \<Rightarrow>
          if ip = [] then Some (1, logMsg ErrorUsage (initialState fs))
          else
            let fullPath = join2 VAULT_DIR ip in
            case map_of fs fullPath of
              None \<Rightarrow> Some (0, logMsg (ErrorUncaught (FsError ENOENT fullPath)) (initialState fs))
            | Some nd \<Rightarrow>
                let outputDir = join2 (cwd E) (stripMd (basename fullPath)) in
                case mainBody fuel E fullPath nd outputDir
                       (logMsg (Log (CHR 0x0A # ''Destination Path: '' @ outputDir @ [CHR 0x0A]))
                          (initialState fs)) of
                  None \<Rightarrow> None
                | Some (Ok u, st) \<Rightarrow> Some (0, st)
                | Some (Throw e, st) \<Rightarrow> Some (0, logMsg (ErrorMain e) st)
                | Some (Exit n, st) \<Rightarrow> Some (n, st))"

section \<open>What a walk preserves\<close>

text \<open>
  The contents of the files of a store; the note targets that the documents of a store can
  link to; the targets a walk may still have to visit.  \<open>keeps\<close> and \<open>grows\<close> relate
  the state before a call to the state after it: no file content is new, the bookkeeping
  of top-level documents is untouched, and the visited set is the same (\<open>keeps\<close>) or has
  grown (\<open>grows\<close>).
\<close>

definition contentsOf :: "filesys \<Rightarrow> string set" where
  "contentsOf fs = {c. \<exists>p r. (p, File r c) \<in> set fs}"

definition keeps :: "state \<Rightarrow> state \<Rightarrow> bool" where
  "keeps st st' =
     (contentsOf (files st') \<subseteq> contentsOf (files st)
      \<and> visitedNotes st' = visitedNotes st \<and> topLevel st' = topLevel st)"



definition grows :: "state \<Rightarrow> state \<Rightarrow> bool" where
  "grows st st' =
     (contentsOf (files st') \<subseteq> contentsOf (files st)
      \<and> set (visitedNotes st) \<subseteq> set (visitedNotes st') \<and> topLevel st' = topLevel st)"





definition collision ::
  "env \<Rightarrow> path \<Rightarrow> (path \<times> string) list \<Rightarrow> filesys \<Rightarrow> path \<Rightarrow> string \<Rightarrow> path \<Rightarrow> string
     \<Rightarrow> string \<Rightarrow> bool" where
  "collision E dir registry fs existingPath ref0 resolvedPath c1 c2 =
     (find (\<lambda>(q, r). basename q = basename resolvedPath) registry = Some (existingPath, ref0)
      \<and> join2 dir (basename existingPath) = existingPath
      \<and> map_of fs existingPath = Some (File True c1)
      \<and> map_of fs resolvedPath = Some (File True c2)
      \<and> contentSuffix E c1 \<noteq> contentSuffix E c2
      \<and> CHR ''/'' \<notin> set (contentSuffix E c1) \<and> CHR ''/'' \<notin> set (contentSuffix E c2))"





section \<open>A platform for the examples\<close>

text \<open>
  The examples below run the exporter on small stores.  They need a platform; this one
  works in \<open>/work\<close>.  Its digest is a stand-in (the bytes of the content in hexadecimal,
  padded to 64 characters), its URI functions cover the escapes of single bytes, and its
  regular-expression engine refuses every pattern: no example hands it one.
\<close>

definition hexDigit :: "nat \<Rightarrow> char" where
  "hexDigit n = ''0123456789abcdef'' ! (n mod 16)"

definition hexByte :: "char \<Rightarrow> string" where
  "hexByte c = [hexDigit (of_char c div 16), hexDigit (of_char c)]"

definition demoDigest :: "string \<Rightarrow> string" where
  "demoDigest c = take 64 (concat (map hexByte c) @ replicate 64 CHR ''0'')"

definition hexVal :: "char \<Rightarrow> nat option" where
  "hexVal c =
     (let n = of_char c
      in if 48 \<le> n \<and> n \<le> 57 then Some (n - 48)
         else if 65 \<le> n \<and> n \<le> 70 then Some (n - 55)
         else if 97 \<le> n \<and> n \<le> 102 then Some (n - 87)
         else None)"

fun demoDecode :: "string \<Rightarrow> string option" where
  "demoDecode [] = Some []"
| "demoDecode (c # cs) =
     (if c = CHR ''%'' then
        (case cs of
           h1 # h2 # rest \<Rightarrow>
             (case (hexVal h1, hexVal h2, demoDecode rest) of
                (Some a, Some b, Some r) \<Rightarrow> Some (char_of (16 * a + b) # r)
              | _ \<Rightarrow> None)
         | _ \<Rightarrow> None)
      else map_option ((#) c) (demoDecode cs))"

definition demoEncode :: "string \<Rightarrow> string" where
  "demoEncode s =
     concat (map (\<lambda>c. if isAlnum c \<or> c \<in> set ''-_.!~*()'' \<or> c = CHR 0x27 then [c]
                       else [CHR ''%'', ''0123456789ABCDEF'' ! (of_char c div 16),
                             ''0123456789ABCDEF'' ! (of_char c mod 16)]) s)"

definition demoEnv :: env where
  "demoEnv =
     \<lparr>cwd = ''/work'', sha256hex = demoDigest, decodeURIComponent = demoDecode,
      encodeURIComponent = demoEncode, regExpTest = (\<lambda>src. None)\<rparr>"



text \<open>
  Two attachments with the same bytes under different names, and the same attachment
  under one name in two folders; a state in which \<open>x.png\<close> and the note \<open>N.md\<close> have
  been exported and copies of them in other folders are about to be.
\<close>

definition storeDup :: filesys where
  "storeDup =
     [(''/Users/avcton/Mind Palace'', Dir),
      (''/Users/avcton/Mind Palace/a'', Dir),
      (''/Users/avcton/Mind Palace/b'', Dir),
      (''/Users/avcton/Mind Palace/a/x.png'', File True ''abc''),
      (''/Users/avcton/Mind Palace/b/y.png'', File True ''abc''),
      (''/Users/avcton/Mind Palace/Index.md'', File True ''![[a/x.png]] ![[b/y.png]]''),
      (''/work'', Dir)]"

definition stateDup :: state where
  "stateDup =
     \<lparr>files =
        [(''/Users/avcton/Mind Palace/c/x.png'', File True ''abc''),
         (''/Users/avcton/Mind Palace/d/N.md'', File True ''a note''),
         (''/work/Index/attachments/x.png'', File True ''abc''),
         (''/work/Index/references/N.md'', File True ''a note'')],
      uniqueAttachments = [(''/work/Index/attachments/x.png'', ''a/x.png'')],
      uniqueNotes = [(''/work/Index/references/N.md'', ''a/N.md'')],
      visitedNotes = [''a/N.md'', ''d/N.md''],
      renamedFiles = [], console = [], topLevel = [''/Users/avcton/Mind Palace/Index.md'']\<rparr>"


definition storeSame :: filesys where
  "storeSame =
     [(''/Users/avcton/Mind Palace'', Dir),
      (''/Users/avcton/Mind Palace/Index.md'', File True ''[[sub/Index]]''),
      (''/Users/avcton/Mind Palace/sub'', Dir),
      (''/Users/avcton/Mind Palace/sub/Index.md'', File True ''another note''),
      (''/work'', Dir)]"








section \<open>Unique-name derivation\<close>

text \<open>
  Claim C9.  The unique name of a file is its stem, an underscore, a suffix and its
  extension, and the suffix is a function of the file's bytes alone: the first eight
  characters of the digest of the content.  Two files with the same bytes, at any two
  paths, in any two states of any two runs (whatever the registries, the visited set and
  the rename table hold), get the same suffix, and the call changes nothing.
\<close>

theorem generateUniqueName_deterministic:
  assumes "fs_readFile (files st1) p1 = Inr c" and "fs_readFile (files st2) p2 = Inr c"
  shows "generateUniqueName E p1 st1 =
           (Ok (parseName p1 @ ''_'' @ contentSuffix E c @ parseExt p1), st1)
       \<and> generateUniqueName E p2 st2 =
           (Ok (parseName p2 @ ''_'' @ contentSuffix E c @ parseExt p2), st2)
       \<and> contentSuffix E c = take 8 (sha256hex E c)
       \<and> (length (sha256hex E c) = 64 \<longrightarrow> length (contentSuffix E c) = 8)"
  using assms by (simp add: generateUniqueName_def contentSuffix_def)

theorem generateUniqueName_deterministic_witness:
  "generateUniqueName demoEnv ''/v/a/photo.png''
       \<lparr>files = [(''/v/a/photo.png'', File True ''abc'')], uniqueAttachments = [],
        uniqueNotes = [], visitedNotes = [], renamedFiles = [], console = [], topLevel = []\<rparr>
     = (Ok ''photo_61626300.png'',
        \<lparr>files = [(''/v/a/photo.png'', File True ''abc'')], uniqueAttachments = [],
         uniqueNotes = [], visitedNotes = [], renamedFiles = [], console = [], topLevel = []\<rparr>)
   \<and> generateUniqueName demoEnv ''/out/img.jpg''
       \<lparr>files = [(''/out/img.jpg'', File True ''abc'')],
        uniqueAttachments = [(''/out/x.png'', ''x.png'')],
        uniqueNotes = [], visitedNotes = [''N.md''], renamedFiles = [(''x.png'', ''x_00.png'')],
        console = [], topLevel = []\<rparr>
     = (Ok ''img_61626300.jpg'',
        \<lparr>files = [(''/out/img.jpg'', File True ''abc'')],
         uniqueAttachments = [(''/out/x.png'', ''x.png'')],
         uniqueNotes = [], visitedNotes = [''N.md''], renamedFiles = [(''x.png'', ''x_00.png'')],
         console = [], topLevel = []\<rparr>)
   \<and> contentSuffix demoEnv ''abc'' = ''61626300''
   \<and> length (contentSuffix demoEnv ''abc'') = 8"
proof -
  let ?s1 = "\<lparr>files = [(''/v/a/photo.png'', File True ''abc'')], uniqueAttachments = [],
        uniqueNotes = [], visitedNotes = [], renamedFiles = [], console = [], topLevel = []\<rparr>"
  let ?s2 = "\<lparr>files = [(''/out/img.jpg'', File True ''abc'')],
        uniqueAttachments = [(''/out/x.png'', ''x.png'')],
        uniqueNotes = [], visitedNotes = [''N.md''], renamedFiles = [(''x.png'', ''x_00.png'')],
        console = [], topLevel = []\<rparr>"
  have r1: "fs_readFile (files ?s1) ''/v/a/photo.png'' = Inr ''abc''"
    by (simp add: fs_readFile_def)
  have r2: "fs_readFile (files ?s2) ''/out/img.jpg'' = Inr ''abc''"
    by (simp add: fs_readFile_def)
  have sfx: "contentSuffix demoEnv ''abc'' = ''61626300''"
    by code_simp
  have n1: "parseName ''/v/a/photo.png'' = ''photo''" "parseExt ''/v/a/photo.png'' = ''.png''"
    by (simp_all add: parseName_def parseExt_def basename_def segments_def stemExt_def)
  have n2: "parseName ''/out/img.jpg'' = ''img''" "parseExt ''/out/img.jpg'' = ''.jpg''"
    by (simp_all add: parseName_def parseExt_def basename_def segments_def stemExt_def)
  have len: "length (sha256hex demoEnv ''abc'') = 64"
    by code_simp
  show ?thesis
    using generateUniqueName_deterministic [OF r1 r2, of demoEnv] sfx n1 n2 len by simp
qed

section \<open>The rewriting of one link\<close>





section \<open>Path resolution: the order of the rules\<close>










section \<open>Termination of the walk\<close>

lemma keeps_refl [simp]: "keeps st st"
  by (simp add: keeps_def)


lemma keeps_upd [simp]:
  "keeps st (st'\<lparr>renamedFiles := r\<rparr>) = keeps st st'"
  "keeps st (st'\<lparr>uniqueAttachments := a\<rparr>) = keeps st st'"
  "keeps st (st'\<lparr>uniqueNotes := n\<rparr>) = keeps st st'"
  "keeps st (logMsg m st') = keeps st st'"
  "keeps st (logWarning w st') = keeps st st'"
  "keeps (st\<lparr>renamedFiles := r\<rparr>) st' = keeps st st'"
  "keeps (st\<lparr>uniqueAttachments := a\<rparr>) st' = keeps st st'"
  "keeps (st\<lparr>uniqueNotes := n\<rparr>) st' = keeps st st'"
  "keeps (logMsg m st) st' = keeps st st'"
  "keeps (logWarning w st) st' = keeps st st'"
  by (simp_all add: keeps_def logMsg_def logWarning_def)

lemma keeps_files: "contentsOf f \<subseteq> contentsOf (files st) \<Longrightarrow> keeps st (st\<lparr>files := f\<rparr>)"
  by (simp add: keeps_def)





lemma contentsOf_snoc_Dir [simp]: "contentsOf (fs @ [(a, Dir)]) = contentsOf fs"
  by (auto simp: contentsOf_def)









lemma generateUniqueName_Ok: "generateUniqueName E p st = (Ok n, st') \<Longrightarrow> st' = st"
  by (auto simp: generateUniqueName_def split: sum.splits)











lemma grows_refl [simp]: "grows st st"
  by (simp add: grows_def)


















section \<open>Deduplication by content\<close>

text \<open>The search for the same content changes nothing but the console.\<close>

lemma findSameContent_console:
  "findSameContent n p reg st = (r, st') \<Longrightarrow> st' = st\<lparr>console := console st'\<rparr>"
proof (induction reg arbitrary: st)
  case Nil
  then show ?case by simp
next
  case (Cons a reg)
  obtain q x where a: "a = (q, x)" by (cases a)
  show ?case
  proof (cases "basename q = n")
    case False
    with Cons.prems a have "findSameContent n p reg st = (r, st')" by simp
    then show ?thesis by (rule Cons.IH)
  next
    case True
    show ?thesis
    proof (cases "compareFiles (files st) q p")
      case (Inl e)
      with Cons.prems a True
      have "findSameContent n p reg (logMsg (ErrorComparing e) st) = (r, st')" by simp
      from Cons.IH [OF this] show ?thesis by (simp add: logMsg_def)
    next
      case (Inr same)
      show ?thesis
      proof (cases same)
        case True
        with Cons.prems a \<open>basename q = n\<close> Inr show ?thesis by simp
      next
        case False
        with Cons.prems a \<open>basename q = n\<close> Inr
        have "findSameContent n p reg st = (r, st')" by simp
        then show ?thesis by (rule Cons.IH)
      qed
    qed
  qed
qed

lemma findSameContent_hit:
  "(q, x) \<in> set reg \<Longrightarrow> basename q = n \<Longrightarrow> compareFiles (files st) q p = Inr True \<Longrightarrow>
     fst (findSameContent n p reg st) \<noteq> None"
proof (induction reg arbitrary: st)
  case Nil
  then show ?case by simp
next
  case (Cons a reg)
  obtain q' x' where a: "a = (q', x')" by (cases a)
  show ?case
  proof (cases "(q, x) = a")
    case True
    with Cons.prems a show ?thesis by simp
  next
    case False
    with Cons.prems have m: "(q, x) \<in> set reg" by simp
    have f: "\<And>m. files (logMsg m st) = files st" by (simp add: logMsg_def)
    from Cons.IH [OF m Cons.prems(2)] Cons.prems(3) f
    have ih: "fst (findSameContent n p reg st) \<noteq> None"
      "\<And>m. fst (findSameContent n p reg (logMsg m st)) \<noteq> None"
      by simp_all
    show ?thesis unfolding a using ih
      by (simp split: sum.splits)
  qed
qed

lemma findSameContent_Some:
  "findSameContent n p reg st = (Some q, st') \<Longrightarrow>
     q \<in> fst ` set reg \<and> basename q = n \<and> compareFiles (files st) q p = Inr True"
proof (induction reg arbitrary: st)
  case Nil
  then show ?case by simp
next
  case (Cons a reg)
  obtain q' x' where a: "a = (q', x')" by (cases a)
  show ?case
  proof (cases "basename q' = n")
    case False
    with Cons.prems a have "findSameContent n p reg st = (Some q, st')" by simp
    from Cons.IH [OF this] show ?thesis by simp
  next
    case True
    show ?thesis
    proof (cases "compareFiles (files st) q' p")
      case (Inl e)
      with Cons.prems a True
      have "findSameContent n p reg (logMsg (ErrorComparing e) st) = (Some q, st')" by simp
      from Cons.IH [OF this] show ?thesis by (simp add: logMsg_def)
    next
      case (Inr same)
      show ?thesis
      proof (cases same)
        case True
        with Cons.prems a \<open>basename q' = n\<close> Inr show ?thesis by simp
      next
        case False
        with Cons.prems a \<open>basename q' = n\<close> Inr
        have "findSameContent n p reg st = (Some q, st')" by simp
        from Cons.IH [OF this] show ?thesis by simp
      qed
    qed
  qed
qed

lemma compareFiles_same:
  "fs_readFile fs q = Inr c \<Longrightarrow> fs_readFile fs p = Inr c \<Longrightarrow> compareFiles fs q p = Inr True"
  by (auto simp: compareFiles_def fs_readFile_def fs_statSize_def
           split: option.splits node.splits if_splits)


text \<open>
  Claim C1, as stated, fails: the registries are searched by basename, so two files with
  the same bytes and different names are both exported.  Here \<open>a/x.png\<close> and \<open>b/y.png\<close>
  hold the same three bytes, and the output has them twice.
\<close>

theorem same_content_two_names_counterexample:
  "(case main 5 demoEnv (Some ''Index.md'') storeDup of
      None \<Rightarrow> []
    | Some (code, st) \<Rightarrow>
        map fst (filter (\<lambda>(p, n). startsWith p ''/work/'' \<and> n = File True ''abc'') (files st)))
   = [''/work/Index/attachments/x.png'', ''/work/Index/attachments/y.png'']"
  by code_simp

text \<open>
  Claim C1, amended.  If a registry holds an entry whose basename is that of the resolved
  file and whose file has the same bytes, the file is not exported again: the step ends
  normally, and nothing but the console changes (no file is written, no registry entry and
  no rename is recorded).  This holds for the attachments and for the notes registry.
  The entry the search returns is an entry of the registry with that basename whose file
  compares equal, size and bytes.
\<close>

theorem same_content_skipped:
  assumes "basename q = basename p"
    and "fs_readFile (files st) q = Inr c" and "fs_readFile (files st) p = Inr c"
  shows "((q, x) \<in> set (uniqueAttachments st) \<longrightarrow>
            (\<exists>st'. exportAttachment E dir ref p st = (Ok (), st')
                 \<and> st' = st\<lparr>console := console st'\<rparr>))
       \<and> ((q, x) \<in> set (uniqueNotes st) \<longrightarrow>
            (\<exists>st'. exportNote E dir ref p st = (Ok False, st')
                 \<and> st' = st\<lparr>console := console st'\<rparr>))
       \<and> (\<forall>reg q' st1. findSameContent (basename p) p reg st = (Some q', st1) \<longrightarrow>
            q' \<in> fst ` set reg \<and> basename q' = basename p
            \<and> compareFiles (files st) q' p = Inr True)"
proof -
  from assms have cmp: "compareFiles (files st) q p = Inr True" by (simp add: compareFiles_same)
  have a: "(q, x) \<in> set (uniqueAttachments st) \<longrightarrow>
            (\<exists>st'. exportAttachment E dir ref p st = (Ok (), st')
                 \<and> st' = st\<lparr>console := console st'\<rparr>)"
  proof
    assume m: "(q, x) \<in> set (uniqueAttachments st)"
    obtain f st1 where f: "findSameContent (basename p) p (uniqueAttachments st) st = (f, st1)"
      by (cases "findSameContent (basename p) p (uniqueAttachments st) st")
    from findSameContent_hit [OF m assms(1) cmp] f obtain q' where q': "f = Some q'" by auto
    from findSameContent_console [OF f] have s1: "st1 = st\<lparr>console := console st1\<rparr>" .
    let ?st' = "logMsg (Log (''Attachment already exists (same content): '' @ ref)) st1"
    from f q' have "exportAttachment E dir ref p st = (Ok (), ?st')"
      by (simp add: exportAttachment_def)
    moreover have "?st' = st\<lparr>console := console ?st'\<rparr>"
      by (subst (1) s1) (simp add: logMsg_def)
    ultimately show "\<exists>st'. exportAttachment E dir ref p st = (Ok (), st')
                 \<and> st' = st\<lparr>console := console st'\<rparr>" by blast
  qed
  have b: "(q, x) \<in> set (uniqueNotes st) \<longrightarrow>
            (\<exists>st'. exportNote E dir ref p st = (Ok False, st')
                 \<and> st' = st\<lparr>console := console st'\<rparr>)"
  proof
    assume m: "(q, x) \<in> set (uniqueNotes st)"
    obtain f st1 where f: "findSameContent (basename p) p (uniqueNotes st) st = (f, st1)"
      by (cases "findSameContent (basename p) p (uniqueNotes st) st")
    from findSameContent_hit [OF m assms(1) cmp] f obtain q' where q': "f = Some q'" by auto
    from findSameContent_console [OF f] have s1: "st1 = st\<lparr>console := console st1\<rparr>" .
    let ?st' = "logMsg (Log (''Note already exists (same content): '' @ ref)) st1"
    from f q' have "exportNote E dir ref p st = (Ok False, ?st')"
      by (simp add: exportNote_def)
    moreover have "?st' = st\<lparr>console := console ?st'\<rparr>"
      by (subst (1) s1) (simp add: logMsg_def)
    ultimately show "\<exists>st'. exportNote E dir ref p st = (Ok False, st')
                 \<and> st' = st\<lparr>console := console st'\<rparr>" by blast
  qed
  have c: "\<forall>reg q' st1. findSameContent (basename p) p reg st = (Some q', st1) \<longrightarrow>
            q' \<in> fst ` set reg \<and> basename q' = basename p
            \<and> compareFiles (files st) q' p = Inr True"
    using findSameContent_Some by blast
  from a b c show ?thesis by blast
qed
theorem same_content_skipped_witness:
  "fst (exportAttachment demoEnv ''/work/Index/attachments'' ''c/x.png''
          ''/Users/avcton/Mind Palace/c/x.png'' stateDup) = Ok ()
   \<and> files (snd (exportAttachment demoEnv ''/work/Index/attachments'' ''c/x.png''
          ''/Users/avcton/Mind Palace/c/x.png'' stateDup)) = files stateDup
   \<and> uniqueAttachments (snd (exportAttachment demoEnv ''/work/Index/attachments'' ''c/x.png''
          ''/Users/avcton/Mind Palace/c/x.png'' stateDup)) = uniqueAttachments stateDup
   \<and> fst (exportNote demoEnv ''/work/Index/references'' ''d/N.md''
          ''/Users/avcton/Mind Palace/d/N.md'' stateDup) = Ok False
   \<and> files (snd (exportNote demoEnv ''/work/Index/references'' ''d/N.md''
          ''/Users/avcton/Mind Palace/d/N.md'' stateDup)) = files stateDup
   \<and> renamedFiles (snd (exportNote demoEnv ''/work/Index/references'' ''d/N.md''
          ''/Users/avcton/Mind Palace/d/N.md'' stateDup)) = []"
proof -
  have b1: "basename ''/work/Index/attachments/x.png'' = basename ''/Users/avcton/Mind Palace/c/x.png''"
    by code_simp
  have r1: "fs_readFile (files stateDup) ''/work/Index/attachments/x.png'' = Inr ''abc''"
    "fs_readFile (files stateDup) ''/Users/avcton/Mind Palace/c/x.png'' = Inr ''abc''"
    by (simp_all add: stateDup_def fs_readFile_def)
  have m1: "(''/work/Index/attachments/x.png'', ''a/x.png'') \<in> set (uniqueAttachments stateDup)"
    by (simp add: stateDup_def)
  have b2: "basename ''/work/Index/references/N.md'' = basename ''/Users/avcton/Mind Palace/d/N.md''"
    by code_simp
  have r2: "fs_readFile (files stateDup) ''/work/Index/references/N.md'' = Inr ''a note''"
    "fs_readFile (files stateDup) ''/Users/avcton/Mind Palace/d/N.md'' = Inr ''a note''"
    by (simp_all add: stateDup_def fs_readFile_def)
  have m2: "(''/work/Index/references/N.md'', ''a/N.md'') \<in> set (uniqueNotes stateDup)"
    by (simp add: stateDup_def)
  from same_content_skipped [OF b1 r1, of "''a/x.png''" demoEnv "''/work/Index/attachments''"
      "''c/x.png''"] m1
  obtain s1 where e1: "exportAttachment demoEnv ''/work/Index/attachments'' ''c/x.png''
          ''/Users/avcton/Mind Palace/c/x.png'' stateDup = (Ok (), s1)"
    and s1: "s1 = stateDup\<lparr>console := console s1\<rparr>"
    by blast
  from same_content_skipped [OF b2 r2, of "''a/N.md''" demoEnv "''/work/Index/references''"
      "''d/N.md''"] m2
  obtain s2 where e2: "exportNote demoEnv ''/work/Index/references'' ''d/N.md''
          ''/Users/avcton/Mind Palace/d/N.md'' stateDup = (Ok False, s2)"
    and s2: "s2 = stateDup\<lparr>console := console s2\<rparr>"
    by blast
  have f1: "files s1 = files stateDup" "uniqueAttachments s1 = uniqueAttachments stateDup"
    by (subst s1, simp)+
  have f2: "files s2 = files stateDup" "renamedFiles s2 = renamedFiles stateDup"
    by (subst s2, simp)+
  have "renamedFiles stateDup = []" by (simp add: stateDup_def)
  with e1 e2 f1 f2 show ?thesis by simp
qed

section \<open>The folder walk\<close>












section \<open>Placement of notes\<close>

text \<open>
  Claim C7 against the code.  The test for ``already in the output directory'' looks at
  the stem of the resolved name, not at where the note is.  The seed \<open>Index.md\<close> links to
  another note \<open>sub/Index.md\<close>; the output directory is \<open>/work/Index\<close>, the stem is
  \<open>Index\<close>, so the note counts as in place: it is registered under its path in the vault
  and never copied, and the output holds the seed alone.
\<close>

theorem in_place_by_stem:
  "noteInPlace demoEnv ''/work/Index'' (basename ''/Users/avcton/Mind Palace/sub/Index.md'')
   \<and> (case main 5 demoEnv (Some ''Index.md'') storeSame of
         None \<Rightarrow> ([], [])
       | Some (code, st) \<Rightarrow>
           (uniqueNotes st,
            filter (\<lambda>(p, n). startsWith p ''/work/'' \<and> n \<noteq> Dir) (files st)))
      = ([(''/Users/avcton/Mind Palace/sub/Index.md'', ''sub/Index.md'')],
         [(''/work/Index/Index.md'', File True ''[[Index]]'')])"
  by code_simp

section \<open>Failures\<close>




section \<open>Name collisions\<close>

lemma splitOn_nonempty: "splitOn d s \<noteq> []"
  by (induction s) (auto split: list.splits)

lemma splitOn_no_sep: "d \<notin> set s \<Longrightarrow> splitOn d s = [s]"
  by (induction s) auto


lemma splitOn_pieces: "w \<in> set (splitOn d s) \<Longrightarrow> d \<notin> set w"
proof (induction s arbitrary: w)
  case Nil
  then show ?case by simp
next
  case (Cons c cs)
  obtain v vs where v: "splitOn d cs = v # vs"
    using splitOn_nonempty [of d cs] by (cases "splitOn d cs") auto
  show ?case
  proof (cases "c = d")
    case True
    with Cons show ?thesis by auto
  next
    case False
    with Cons.prems v have "w = c # v \<or> w \<in> set vs" by simp
    with Cons.IH v False show ?thesis by auto
  qed
qed


lemma segments_simple: "CHR ''/'' \<notin> set n \<Longrightarrow> n \<noteq> [] \<Longrightarrow> segments n = [n]"
  by (simp add: segments_def splitOn_no_sep)

lemma segments_no_slash: "s \<in> set (segments p) \<Longrightarrow> CHR ''/'' \<notin> set s"
  by (auto simp: segments_def dest: splitOn_pieces)

lemma basename_no_slash: "CHR ''/'' \<notin> set (basename p)"
proof (cases "rev (segments p)")
  case Nil
  then show ?thesis by (simp add: basename_def)
next
  case (Cons s ss)
  then have m: "s \<in> set (segments p)" by (metis list.set_intros(1) set_rev)
  from Cons have "basename p = s" by (simp only: basename_def list.case)
  with m show ?thesis using segments_no_slash by blast
qed


lemma basename_simple: "CHR ''/'' \<notin> set n \<Longrightarrow> n \<noteq> [] \<Longrightarrow> basename n = n"
  by (simp add: basename_def segments_simple)








lemma parse_basename [simp]:
  "parseName (basename p) = parseName p" "parseExt (basename p) = parseExt p"
proof -
  have "basename (basename p) = basename p"
  proof (cases "basename p = []")
    case True
    then show ?thesis by (simp add: basename_def segments_def)
  next
    case False
    then show ?thesis using basename_simple basename_no_slash by simp
  qed
  then show "parseName (basename p) = parseName p" "parseExt (basename p) = parseExt p"
    by (simp_all add: parseName_def parseExt_def)
qed














lemma findSameContent_fields:
  assumes "findSameContent n p reg st = (r, st1)"
  shows "files st1 = files st" "uniqueNotes st1 = uniqueNotes st"
    "uniqueAttachments st1 = uniqueAttachments st" "renamedFiles st1 = renamedFiles st"
proof -
  from findSameContent_console [OF assms] have c: "st1 = st\<lparr>console := console st1\<rparr>" .
  show "files st1 = files st" using arg_cong [OF c, of files] by simp
  show "uniqueNotes st1 = uniqueNotes st" using arg_cong [OF c, of uniqueNotes] by simp
  show "uniqueAttachments st1 = uniqueAttachments st"
    using arg_cong [OF c, of uniqueAttachments] by simp
  show "renamedFiles st1 = renamedFiles st" using arg_cong [OF c, of renamedFiles] by simp
qed



lemma collision_console:
  "findSameContent n p reg0 st = (r, st1) \<Longrightarrow>
     collision E dir reg (files st1) ep r0 rp c1 c2 = collision E dir reg (files st) ep r0 rp c1 c2"
  by (simp add: findSameContent_fields(1))





lemma update_mem: "(k, v) \<in> set (AList.update k v al)"
  by (rule map_of_SomeD) (simp add: update_conv')





section \<open>Links and the output tree\<close>





lemma fst_update_mem: "k \<in> fst ` set (AList.update k v al)"
  using update_mem [of k v al] by (metis fst_conv image_eqI)








end
